theory Spec2Isabelle
  imports Complex_Main
begin

section \<open>Automatic ad distribution: the data model\<close>

text \<open>
  This theory embeds \<^verbatim>\<open>distribute_ads_automatically\<close> of
  \<^verbatim>\<open>src/distribution_logic.py\<close>. A pandas dataframe is a list of rows under a list of
  column names; a row is addressed by its position (the frame carries pandas' default
  \<^verbatim>\<open>RangeIndex\<close>, so the labels used by \<^verbatim>\<open>.loc\<close> are the positions).

  A cell of a text or numeric column of the spreadsheet is a string, a number or missing.
  Numbers are exact rationals: the binary floating point of the source is idealised, so that
  \<^verbatim>\<open>/\<close>, \<^verbatim>\<open>*\<close> and \<^verbatim>\<open>np.floor\<close> are the exact operations.
  \<^verbatim>\<open>ProjectID\<close> is a string column: the application converts it with
  \<^verbatim>\<open>astype(str)\<close> before the call (\<^verbatim>\<open>src/app.py\<close>, lines 48-49), and
  \<^verbatim>\<open>str(project_id)\<close> is then the identity.
\<close>

datatype cell = Str string | Num rat | NaN

record project =
  ProjectID :: string
  RegionName :: cell
  Req :: cell
  ProjectOrder :: cell
  ProjectExcellenceScore :: cell
  MarketingSize :: cell
  AdsDistributed :: cell
  UnitTypesInProject :: cell

text \<open>
  The fields of a row whose column is not listed in \<open>columns\<close> are never read: the
  function returns before it touches a row when a required column is missing.
\<close>

record dataframe =
  columns :: "string list"
  rows :: "project list"

text \<open>
  One entry of \<^verbatim>\<open>distribution_log_entries\<close> (lines 150-158). The field
  \<^verbatim>\<open>DistributionID\<close> embeds a wall-clock reading taken per row and is left out;
  \<^verbatim>\<open>DistributionDate\<close> is the reading taken once at line 114, a parameter here.
\<close>

record log_entry =
  EmployeeID :: string
  LogProjectID :: string
  LogRegionName :: string
  UnitTypeName :: string
  AdsAllocated :: int
  DistributionDate :: string

text \<open>The only exception the body can raise on cells of the three kinds above.\<close>

datatype error = AttributeError

section \<open>Strings\<close>

text \<open>
  \<^verbatim>\<open>str.strip()\<close> removes leading and trailing whitespace, \<^verbatim>\<open>str.lower()\<close>
  lowers letters; both are modelled on ASCII (the whitespace characters below are the ASCII
  ones for which \<^verbatim>\<open>str.isspace\<close> holds).
\<close>

definition is_space :: "char \<Rightarrow> bool" where
  "is_space c \<longleftrightarrow> (let n = (of_char c :: nat) in (9 \<le> n \<and> n \<le> 13) \<or> (28 \<le> n \<and> n \<le> 32))"

definition strip :: "string \<Rightarrow> string" where
  "strip s = rev (dropWhile is_space (rev (dropWhile is_space s)))"

definition lower_char :: "char \<Rightarrow> char" where
  "lower_char c = (let n = (of_char c :: nat) in if 65 \<le> n \<and> n \<le> 90 then char_of (n + 32) else c)"

definition lower :: "string \<Rightarrow> string" where
  "lower s = map lower_char s"

text \<open>\<^verbatim>\<open>s.split(',')\<close>: always at least one piece.\<close>

fun split_comma :: "string \<Rightarrow> string list" where
  "split_comma [] = [[]]"
| "split_comma (c # cs) =
     (if c = CHR '','' then [] # split_comma cs
      else (case split_comma cs of [] \<Rightarrow> [[c]] | w # ws \<Rightarrow> (c # w) # ws))"

text \<open>Line 135: \<^verbatim>\<open>[ut.strip() for ut in unit_types_str.split(',') if ut.strip()]\<close>.\<close>

definition parse_unit_types :: "string \<Rightarrow> string list" where
  "parse_unit_types s = map strip (filter (\<lambda>ut. strip ut \<noteq> []) (split_comma s))"

section \<open>Validation, coercion and filtering (lines 28-52)\<close>

definition required_cols :: "string list" where
  "required_cols = [''ProjectID'', ''RegionName'', ''Req'', ''ProjectOrder'',
     ''ProjectExcellenceScore'', ''MarketingSize'', ''AdsDistributed'', ''UnitTypesInProject'']"

definition has_required_cols :: "dataframe \<Rightarrow> bool" where
  "has_required_cols df \<longleftrightarrow> list_all (\<lambda>col. col \<in> set (columns df)) required_cols"

text \<open>
  \<^verbatim>\<open>pd.to_numeric(..., errors='coerce')\<close> on one cell. How pandas reads a string as a
  number is library code: it is the parameter \<open>parse\<close>, \<open>None\<close> where pandas coerces to NaN.
\<close>

definition to_numeric :: "(string \<Rightarrow> rat option) \<Rightarrow> cell \<Rightarrow> cell" where
  "to_numeric parse c =
     (case c of
        Num r \<Rightarrow> Num r
      | NaN \<Rightarrow> NaN
      | Str s \<Rightarrow> (case parse s of Some r \<Rightarrow> Num r | None \<Rightarrow> NaN))"

text \<open>Lines 34-37: the four numeric columns of the caller's frame are assigned in place.\<close>

definition coerce_row :: "(string \<Rightarrow> rat option) \<Rightarrow> project \<Rightarrow> project" where
  "coerce_row parse p =
     p\<lparr>ProjectOrder := to_numeric parse (ProjectOrder p),
       ProjectExcellenceScore := to_numeric parse (ProjectExcellenceScore p),
       MarketingSize := to_numeric parse (MarketingSize p),
       AdsDistributed := to_numeric parse (AdsDistributed p)\<rparr>"

definition coerce_numeric :: "(string \<Rightarrow> rat option) \<Rightarrow> dataframe \<Rightarrow> dataframe" where
  "coerce_numeric parse df = df\<lparr>rows := map (coerce_row parse) (rows df)\<rparr>"

text \<open>
  Line 43: \<^verbatim>\<open>.str.strip().str.lower() == selected_region.strip().lower()\<close>; the
  \<^verbatim>\<open>.str\<close> methods give NaN on a cell that is not a string, and the comparison is then
  false.
\<close>

definition region_matches :: "string \<Rightarrow> cell \<Rightarrow> bool" where
  "region_matches selected_region c =
     (case c of Str s \<Rightarrow> lower (strip s) = lower (strip selected_region) | _ \<Rightarrow> False)"

text \<open>
  Line 44: \<^verbatim>\<open>.astype(str).str.strip().str.lower() == "yes"\<close>; the text of a number or
  of a missing value (\<^verbatim>\<open>"nan"\<close>) is never \<^verbatim>\<open>"yes"\<close>.
\<close>

definition req_yes :: "cell \<Rightarrow> bool" where
  "req_yes c = (case c of Str s \<Rightarrow> lower (strip s) = ''yes'' | _ \<Rightarrow> False)"

definition region_projects :: "dataframe \<Rightarrow> string \<Rightarrow> project list" where
  "region_projects df selected_region =
     filter (\<lambda>p. region_matches selected_region (RegionName p) \<and> req_yes (Req p)) (rows df)"

text \<open>Line 52: \<^verbatim>\<open>fillna(0)\<close> on a coerced numeric cell.\<close>

definition fillna0 :: "cell \<Rightarrow> rat" where
  "fillna0 c = (case c of Num r \<Rightarrow> r | _ \<Rightarrow> 0)"

section \<open>Importance scores (lines 56-87)\<close>

definition max_order :: "project list \<Rightarrow> rat" where
  "max_order rp = Max (set (map (\<lambda>p. fillna0 (ProjectOrder p)) rp))"

definition PriorityScore :: "project list \<Rightarrow> project \<Rightarrow> rat" where
  "PriorityScore rp p = max_order rp - fillna0 (ProjectOrder p) + 1"

definition DemandScore :: "project \<Rightarrow> rat" where
  "DemandScore p = 5"

definition ExcellenceScoreCalc :: "project \<Rightarrow> rat" where
  "ExcellenceScoreCalc p = fillna0 (ProjectExcellenceScore p) / 10"

definition RemainingSizeScore :: "project \<Rightarrow> rat" where
  "RemainingSizeScore p = max (fillna0 (MarketingSize p) - fillna0 (AdsDistributed p)) 0"

definition TotalScore :: "project list \<Rightarrow> project \<Rightarrow> rat" where
  "TotalScore rp p =
     max (PriorityScore rp p + DemandScore p + ExcellenceScoreCalc p + RemainingSizeScore p) 0"

definition total_scores :: "project list \<Rightarrow> rat list" where
  "total_scores rp = map (TotalScore rp) rp"

definition total_importance_score :: "project list \<Rightarrow> rat" where
  "total_importance_score rp = sum_list (total_scores rp)"

section \<open>Project-level apportionment (lines 94-111)\<close>

definition CalculatedAds :: "rat \<Rightarrow> int \<Rightarrow> rat \<Rightarrow> rat" where
  "CalculatedAds W q w = w / W * of_int q"

definition floor_ads :: "rat list \<Rightarrow> int \<Rightarrow> int list" where
  "floor_ads ws q = map (\<lambda>w. \<lfloor>CalculatedAds (sum_list ws) q w\<rfloor>) ws"

definition remainder_ads :: "rat list \<Rightarrow> int \<Rightarrow> int" where
  "remainder_ads ws q = q - sum_list (floor_ads ws q)"

definition RemainderPriority :: "rat list \<Rightarrow> int \<Rightarrow> rat list" where
  "RemainderPriority ws q =
     map (\<lambda>w. CalculatedAds (sum_list ws) q w - of_int \<lfloor>CalculatedAds (sum_list ws) q w\<rfloor>) ws"

text \<open>
  Line 105: \<^verbatim>\<open>sort_values(by="RemainderPriority", ascending=False).index\<close>. The sort is
  pandas' with its default \<^verbatim>\<open>kind='quicksort'\<close>, which the library documents as not
  stable, so the order among equal keys is not fixed by the source. It is the parameter
  \<open>srt\<close>, from the keys to the row positions in sorted order, and \<open>sort_values_desc_ok\<close> is
  what the library promises of it: a permutation of the positions along which the keys do
  not increase.
\<close>

definition sort_values_desc_ok :: "(rat list \<Rightarrow> nat list) \<Rightarrow> bool" where
  "sort_values_desc_ok srt \<longleftrightarrow>
     (\<forall>ks. distinct (srt ks) \<and> set (srt ks) = {..<length ks} \<and>
           sorted_wrt (\<lambda>i j. ks ! j \<le> ks ! i) (srt ks))"

text \<open>Lines 107-109: \<^verbatim>\<open>.loc[idx, "AllocatedAdsProject"] += 1\<close> along the sorted positions.\<close>

fun add_remainder :: "nat list \<Rightarrow> int list \<Rightarrow> int list" where
  "add_remainder [] al = al"
| "add_remainder (idx # rest) al = add_remainder rest (al[idx := al ! idx + 1])"

definition sorted_indices :: "(rat list \<Rightarrow> nat list) \<Rightarrow> rat list \<Rightarrow> int \<Rightarrow> nat list" where
  "sorted_indices srt ws q = srt (RemainderPriority ws q)"

text \<open>\<^verbatim>\<open>range(min(remainder_ads, len(region_projects)))\<close> is empty for a negative bound.\<close>

definition AllocatedAdsProject :: "(rat list \<Rightarrow> nat list) \<Rightarrow> rat list \<Rightarrow> int \<Rightarrow> int list" where
  "AllocatedAdsProject srt ws q =
     add_remainder
       (take (nat (min (remainder_ads ws q) (int (length ws)))) (sorted_indices srt ws q))
       (floor_ads ws q)"

section \<open>Unit-type split and the log (lines 116-158)\<close>

text \<open>Lines 141-147, for the unit type at position \<open>i\<close> of \<open>k\<close>.\<close>

definition ads_for_this_unit :: "int \<Rightarrow> nat \<Rightarrow> nat \<Rightarrow> int" where
  "ads_for_this_unit ads_for_project k i =
     (let ads_per_unit_type = ads_for_project div int k;
          remainder_unit_ads = ads_for_project mod int k
      in if int i < remainder_unit_ads then ads_per_unit_type + 1 else ads_per_unit_type)"

text \<open>The \<^verbatim>\<open>enumerate\<close> loop of lines 144-158; \<open>i\<close> is the running position.\<close>

fun unit_loop ::
  "string \<Rightarrow> string \<Rightarrow> string \<Rightarrow> string \<Rightarrow> int \<Rightarrow> nat \<Rightarrow> nat \<Rightarrow> string list \<Rightarrow> log_entry list"
where
  "unit_loop emp pid region now ads k i [] = []"
| "unit_loop emp pid region now ads k i (ut # uts) =
     (if ads_for_this_unit ads k i > 0
      then \<lparr>EmployeeID = emp, LogProjectID = pid, LogRegionName = region, UnitTypeName = ut,
             AdsAllocated = ads_for_this_unit ads k i, DistributionDate = now\<rparr>
           # unit_loop emp pid region now ads k (Suc i) uts
      else unit_loop emp pid region now ads k (Suc i) uts)"

text \<open>
  Lines 126-158 for one project with a positive award: the rows it appends to the log.
  \<^verbatim>\<open>pd.isna\<close> is false on a number, on which \<^verbatim>\<open>.strip()\<close> then raises.
\<close>

definition project_rows :: "string \<Rightarrow> string \<Rightarrow> string \<Rightarrow> project \<Rightarrow> int \<Rightarrow> error + log_entry list" where
  "project_rows emp region now p ads =
     (case UnitTypesInProject p of
        NaN \<Rightarrow> Inr []
      | Num r \<Rightarrow> Inl AttributeError
      | Str s \<Rightarrow>
          if strip s = [] then Inr []
          else let unit_types = parse_unit_types s in
            if unit_types = [] then Inr []
            else Inr (unit_loop emp (ProjectID p) region now ads (length unit_types) 0 unit_types))"

text \<open>
  \<^verbatim>\<open>project_ads_update[key] = value\<close> on an insertion-ordered dictionary: an existing
  key keeps its place and takes the new value.
\<close>

fun dict_set :: "string \<Rightarrow> int \<Rightarrow> (string \<times> int) list \<Rightarrow> (string \<times> int) list" where
  "dict_set k v [] = [(k, v)]"
| "dict_set k v ((k', v') # d) = (if k' = k then (k, v) # d else (k', v') # dict_set k v d)"

text \<open>The loop of line 116 over the rows and their awards, stopping at an exception.\<close>

fun project_loop ::
  "string \<Rightarrow> string \<Rightarrow> string \<Rightarrow> (project \<times> int) list \<Rightarrow> log_entry list \<times> (string \<times> int) list
     \<Rightarrow> error + (log_entry list \<times> (string \<times> int) list)"
where
  "project_loop emp region now [] st = Inr st"
| "project_loop emp region now ((p, ads) # rest) (entries, upd) =
     (if ads \<le> 0 then project_loop emp region now rest (entries, upd)
      else (case project_rows emp region now p ads of
              Inl e \<Rightarrow> Inl e
            | Inr rs \<Rightarrow> project_loop emp region now rest (entries @ rs, dict_set (ProjectID p) ads upd)))"

section \<open>The whole function\<close>

text \<open>
  The result is the caller's frame as the call leaves it, and either the exception or the
  triple (log, project updates, total allocated).
\<close>

definition distribute_ads_automatically ::
  "(string \<Rightarrow> rat option) \<Rightarrow> (rat list \<Rightarrow> nat list) \<Rightarrow> string \<Rightarrow> dataframe \<Rightarrow> string \<Rightarrow> int \<Rightarrow> string
     \<Rightarrow> dataframe \<times> (error + (log_entry list \<times> (string \<times> int) list \<times> int))"
where
  "distribute_ads_automatically parse srt now projects_df selected_region num_ads_to_distribute employee_id =
     (if \<not> has_required_cols projects_df then (projects_df, Inr ([], [], 0))
      else
        let df = coerce_numeric parse projects_df;
            rp = region_projects df selected_region
        in if rp = [] then (df, Inr ([], [], 0))
           else if total_importance_score rp \<le> 0 then (df, Inr ([], [], 0))
           else
             let awards = AllocatedAdsProject srt (total_scores rp) num_ads_to_distribute;
                 total_ads_allocated = sum_list awards
             in (df,
                 case project_loop employee_id selected_region now (zip rp awards) ([], []) of
                   Inl e \<Rightarrow> Inl e
                 | Inr (entries, upd) \<Rightarrow> Inr (entries, upd, total_ads_allocated)))"

section \<open>Notions used to state the results\<close>

text \<open>The eligible rows, their weights and their integer awards, as the body computes them.\<close>

abbreviation eligible_projects :: "(string \<Rightarrow> rat option) \<Rightarrow> dataframe \<Rightarrow> string \<Rightarrow> project list" where
  "eligible_projects parse df selected_region \<equiv>
     region_projects (coerce_numeric parse df) selected_region"





text \<open>
  A unit-type cell that is missing, empty (blank), or parses to the empty list after
  splitting on commas and trimming.
\<close>

definition no_unit_types :: "cell \<Rightarrow> bool" where
  "no_unit_types c =
     (case c of
        NaN \<Rightarrow> True
      | Num r \<Rightarrow> False
      | Str s \<Rightarrow> strip s = [] \<or> parse_unit_types s = [])"

section \<open>Instances of the library parameters and concrete snapshots\<close>

text \<open>
  Two sorts that meet \<open>sort_values_desc_ok\<close>: a stable one (equal keys stay in input order)
  and one that lists equal keys in reverse input order (an ascending sort read backwards).
\<close>

definition stable_argsort_desc :: "rat list \<Rightarrow> nat list" where
  "stable_argsort_desc ks = sort_key (\<lambda>i. - (ks ! i)) [0..<length ks]"


text \<open>
  A conversion of strings to numbers that reads unsigned decimal integers and coerces
  everything else to NaN.
\<close>

fun digits_value :: "string \<Rightarrow> nat \<Rightarrow> nat option" where
  "digits_value [] acc = Some acc"
| "digits_value (c # cs) acc =
     (let n = (of_char c :: nat) in
      if 48 \<le> n \<and> n \<le> 57 then digits_value cs (10 * acc + (n - 48)) else None)"

definition parse_decimal :: "string \<Rightarrow> rat option" where
  "parse_decimal s = (if s = [] then None else map_option of_nat (digits_value s 0))"

definition mk_project ::
  "string \<Rightarrow> string \<Rightarrow> string \<Rightarrow> cell \<Rightarrow> cell \<Rightarrow> cell \<Rightarrow> cell \<Rightarrow> cell \<Rightarrow> project"
where
  "mk_project pid region req ord exc msize distd uts =
     \<lparr>ProjectID = pid, RegionName = Str region, Req = Str req, ProjectOrder = ord,
      ProjectExcellenceScore = exc, MarketingSize = msize, AdsDistributed = distd,
      UnitTypesInProject = uts\<rparr>"

text \<open>The snapshot of the example at the end of the source file (lines 175-186).\<close>

definition example_columns :: "string list" where
  "example_columns = [''ProjectID'', ''ProjectName'', ''DeveloperID'', ''RegionName'',
     ''UnitTypesInProject'', ''ProjectOrder'', ''Req'', ''ProjectExcellenceScore'',
     ''MarketingSize'', ''AdsDistributed'']"

definition example_df :: dataframe where
  "example_df = \<lparr>columns = example_columns, rows =
     [mk_project ''P1'' ''North'' ''Yes'' (Num 1) (Num 80) (Num 100) (Num 20) (Str ''Apt, Studio''),
      mk_project ''P2'' ''North'' ''Yes'' (Num 2) (Num 95) (Num 150) (Num 30) (Str ''Villa, Apt''),
      mk_project ''P3'' ''South'' ''Yes'' (Num 1) (Num 70) (Num 80) (Num 10) (Str ''Townhouse''),
      mk_project ''P4'' ''North'' ''No'' (Num 3) (Num 90) (Num 50) (Num 5) (Str ''Studio'')]\<rparr>"

text \<open>The same rows under a header that lacks the column \<^verbatim>\<open>Req\<close>.\<close>

definition no_req_df :: dataframe where
  "no_req_df = \<lparr>columns = [''ProjectID'', ''RegionName'', ''ProjectOrder'',
       ''ProjectExcellenceScore'', ''MarketingSize'', ''AdsDistributed'', ''UnitTypesInProject''],
     rows = rows example_df\<rparr>"




text \<open>A snapshot as a spreadsheet delivers it, with the numbers of one row as text.\<close>

definition text_df :: dataframe where
  "text_df = \<lparr>columns = example_columns, rows =
     [mk_project ''P1'' ''North'' ''Yes'' (Str ''1'') (Str ''80'') (Str ''100'') (Str ''n/a'') (Str ''Apt, Studio'')]\<rparr>"



section \<open>The apportionment: auxiliary facts\<close>

lemma sum_list_CalculatedAds:
  assumes "sum_list ws \<noteq> 0"
  shows "sum_list (map (CalculatedAds (sum_list ws) q) ws) = of_int q"
proof -
  have "sum_list (map (CalculatedAds W q) ws) = sum_list ws / W * of_int q" for W :: rat
    by (induction ws) (simp_all add: CalculatedAds_def algebra_simps add_divide_distrib)
  from this [of "sum_list ws"] assms show ?thesis
    by simp
qed

lemma length_floor_ads [simp]: "length (floor_ads ws q) = length ws"
  by (simp add: floor_ads_def)

lemma length_RemainderPriority [simp]: "length (RemainderPriority ws q) = length ws"
  by (simp add: RemainderPriority_def)

lemma of_int_sum_list_floor_le:
  "(of_int (sum_list (map (\<lambda>x. \<lfloor>f x\<rfloor>) xs)) :: rat) \<le> sum_list (map f xs)"
  by (induction xs) (simp_all add: add_mono)

lemma sum_list_le_floor_plus_length:
  "sum_list (map f xs) \<le> (of_int (sum_list (map (\<lambda>x. \<lfloor>f x\<rfloor>) xs)) :: rat) + of_nat (length xs)"
proof (induction xs)
  case Nil
  then show ?case by simp
next
  case (Cons x xs)
  have "f x \<le> of_int \<lfloor>f x\<rfloor> + 1" by linarith
  with Cons show ?case by simp
qed

lemma remainder_ads_bounds:
  assumes "sum_list ws \<noteq> 0"
  shows "0 \<le> remainder_ads ws q" and "remainder_ads ws q \<le> int (length ws)"
proof -
  let ?f = "CalculatedAds (sum_list ws) q"
  have s: "sum_list (map ?f ws) = of_int q"
    using assms by (rule sum_list_CalculatedAds)
  have "(of_int (sum_list (floor_ads ws q)) :: rat) \<le> of_int q"
    using of_int_sum_list_floor_le [of ?f ws] s by (simp add: floor_ads_def)
  then show "0 \<le> remainder_ads ws q"
    by (simp add: remainder_ads_def)
  have "(of_int q :: rat) \<le> of_int (sum_list (floor_ads ws q)) + of_nat (length ws)"
    using sum_list_le_floor_plus_length [of ?f ws] s by (simp add: floor_ads_def)
  then have "(of_int q :: rat) \<le> of_int (sum_list (floor_ads ws q) + int (length ws))"
    by simp
  then have "q \<le> sum_list (floor_ads ws q) + int (length ws)"
    by (simp only: of_int_le_iff)
  then show "remainder_ads ws q \<le> int (length ws)"
    by (simp add: remainder_ads_def)
qed

lemma length_add_remainder [simp]: "length (add_remainder idxs al) = length al"
  by (induction idxs arbitrary: al) simp_all



lemma nth_add_remainder:
  "distinct idxs \<Longrightarrow> j < length al \<Longrightarrow>
     add_remainder idxs al ! j = al ! j + (if j \<in> set idxs then 1 else 0)"
proof (induction idxs arbitrary: al)
  case Nil
  then show ?case by simp
next
  case (Cons i idxs)
  then show ?case by (cases "i = j") (auto simp: nth_list_update)
qed



lemma sort_ok_distinct: "sort_values_desc_ok srt \<Longrightarrow> distinct (srt ks)"
  unfolding sort_values_desc_ok_def by blast


lemma stable_argsort_desc_ok: "sort_values_desc_ok stable_argsort_desc"
proof -
  have "sorted_wrt (\<lambda>i j. ks ! j \<le> ks ! i) (stable_argsort_desc ks)" for ks
  proof -
    have "sorted (map (\<lambda>i. - (ks ! i)) (stable_argsort_desc ks))"
      unfolding stable_argsort_desc_def by (rule sorted_sort_key)
    then show ?thesis
      by (simp add: sorted_wrt_map)
  qed
  then show ?thesis
    by (auto simp: sort_values_desc_ok_def stable_argsort_desc_def)
qed






















lemma length_AllocatedAdsProject [simp]: "length (AllocatedAdsProject srt ws q) = length ws"
  by (simp add: AllocatedAdsProject_def)

lemma length_total_scores [simp]: "length (total_scores rp) = length rp"
  by (simp add: total_scores_def)


section \<open>The branches of the function\<close>

lemma distribute_missing_column:
  "\<not> has_required_cols df \<Longrightarrow>
     distribute_ads_automatically parse srt now df region q emp = (df, Inr ([], [], 0))"
  by (simp add: distribute_ads_automatically_def)




section \<open>Conservation at the project level\<close>



section \<open>A missing required column\<close>

text \<open>
  Claim C7. For every snapshot that lacks at least one of the eight required columns, the
  function returns an empty log, an empty project-update map and the total 0; it allocates
  nothing, leaves the frame as it was and raises no exception.
\<close>

theorem missing_column_returns_empty:
  assumes "\<exists>col\<in>set required_cols. col \<notin> set (columns df)"
  shows "distribute_ads_automatically parse srt now df region q emp = (df, Inr ([], [], 0))"
proof -
  from assms have "\<not> has_required_cols df"
    by (auto simp: has_required_cols_def list_all_iff)
  then show ?thesis by (rule distribute_missing_column)
qed

theorem missing_column_returns_empty_witness:
  "(\<exists>col\<in>set required_cols. col \<notin> set (columns no_req_df)) \<and>
   distribute_ads_automatically parse_decimal stable_argsort_desc ''2025-01-01 00:00:00''
      no_req_df ''North'' 50 ''E101'' = (no_req_df, Inr ([], [], 0))"
proof -
  have "''Req'' \<in> set required_cols" by code_simp
  moreover have "''Req'' \<notin> set (columns no_req_df)" by code_simp
  ultimately have h: "\<exists>col\<in>set required_cols. col \<notin> set (columns no_req_df)" by blast
  from missing_column_returns_empty [OF h] h show ?thesis by blast
qed

section \<open>Conservation at the unit-type level\<close>

lemma strip_Nil_iff: "strip s = [] \<longleftrightarrow> (\<forall>c\<in>set s. is_space c)"
proof
  assume "strip s = []"
  then have a: "\<forall>c\<in>set (dropWhile is_space s). is_space c"
    by (simp add: strip_def dropWhile_eq_Nil_conv)
  show "\<forall>c\<in>set s. is_space c"
  proof (cases "dropWhile is_space s")
    case Nil
    then show ?thesis by (simp add: dropWhile_eq_Nil_conv)
  next
    case (Cons c cs)
    then have "\<not> is_space c"
      using hd_dropWhile [of is_space s] by simp
    with a Cons show ?thesis by simp
  qed
next
  assume "\<forall>c\<in>set s. is_space c"
  then have d: "dropWhile is_space s = []"
    using dropWhile_eq_Nil_conv [of is_space s] by blast
  show "strip s = []"
    unfolding strip_def d by simp
qed

lemma split_comma_chars: "w \<in> set (split_comma s) \<Longrightarrow> set w \<subseteq> set s"
proof (induction s arbitrary: w)
  case Nil
  then show ?case by simp
next
  case (Cons c cs)
  show ?case
  proof (cases "c = CHR '',''")
    case True
    with Cons show ?thesis by auto
  next
    case False
    show ?thesis
    proof (cases "split_comma cs")
      case Nil
      with Cons.prems False show ?thesis by auto
    next
      case (Cons v vs)
      with Cons.prems False have "w = c # v \<or> w \<in> set vs" by auto
      moreover have "set v \<subseteq> set cs" and "\<forall>u\<in>set vs. set u \<subseteq> set cs"
        using Cons.IH Cons by auto
      ultimately show ?thesis by auto
    qed
  qed
qed

lemma blank_parses_to_nothing: "strip s = [] \<Longrightarrow> parse_unit_types s = []"
proof -
  assume "strip s = []"
  then have "\<forall>w\<in>set (split_comma s). strip w = []"
    using split_comma_chars by (fastforce simp: strip_Nil_iff)
  then show ?thesis
    by (simp add: parse_unit_types_def filter_empty_conv)
qed

lemma no_unit_types_Str: "no_unit_types (Str s) \<longleftrightarrow> parse_unit_types s = []"
  by (auto simp: no_unit_types_def blank_parses_to_nothing)






section \<open>Signs of the scores and of the awards\<close>







section \<open>The caller's frame\<close>

lemma to_numeric_idem: "to_numeric parse (to_numeric parse c) = to_numeric parse c"
  by (cases c) (auto simp: to_numeric_def split: option.splits)

lemma coerce_row_idem: "coerce_row parse (coerce_row parse p) = coerce_row parse p"
  by (simp add: coerce_row_def to_numeric_idem)

lemma coerce_numeric_idem: "coerce_numeric parse (coerce_numeric parse df) = coerce_numeric parse df"
  by (simp add: coerce_numeric_def coerce_row_idem)

lemma has_required_cols_coerce [simp]:
  "has_required_cols (coerce_numeric parse df) = has_required_cols df"
  by (simp add: has_required_cols_def coerce_numeric_def)

lemma fst_distribute:
  "fst (distribute_ads_automatically parse srt now df region q emp) =
     (if has_required_cols df then coerce_numeric parse df else df)"
  by (auto simp: distribute_ads_automatically_def Let_def)

lemma distribute_coerced:
  "has_required_cols df \<Longrightarrow>
   distribute_ads_automatically parse srt now (coerce_numeric parse df) region q emp =
   distribute_ads_automatically parse srt now df region q emp"
  by (simp add: distribute_ads_automatically_def coerce_numeric_idem)

text \<open>
  Claim C6, as the code has it. The call assigns, in the caller-supplied frame, the numeric
  coercion of the four numeric columns (line 37) and changes nothing else: the header and
  the identity, region, \<^verbatim>\<open>Req\<close> and unit-type cells stay, and the frame is untouched
  when a required column is missing. A second call on the frame so left, with the same
  arguments, computes the same scores and returns the same log, updates and total, and
  leaves the frame as it found it.
\<close>

theorem second_call_repeats_first:
  "fst (distribute_ads_automatically parse srt now df region q emp) =
     (if has_required_cols df then coerce_numeric parse df else df) \<and>
   columns (fst (distribute_ads_automatically parse srt now df region q emp)) = columns df \<and>
   map (\<lambda>p. (ProjectID p, RegionName p, Req p, UnitTypesInProject p))
       (rows (fst (distribute_ads_automatically parse srt now df region q emp))) =
     map (\<lambda>p. (ProjectID p, RegionName p, Req p, UnitTypesInProject p)) (rows df) \<and>
   total_scores (eligible_projects parse
       (fst (distribute_ads_automatically parse srt now df region q emp)) region) =
     total_scores (eligible_projects parse df region) \<and>
   distribute_ads_automatically parse srt now
       (fst (distribute_ads_automatically parse srt now df region q emp)) region q emp =
     distribute_ads_automatically parse srt now df region q emp"
proof (cases "has_required_cols df")
  case True
  have "map (\<lambda>p. (ProjectID p, RegionName p, Req p, UnitTypesInProject p))
          (rows (coerce_numeric parse df)) =
        map (\<lambda>p. (ProjectID p, RegionName p, Req p, UnitTypesInProject p)) (rows df)"
    by (simp add: coerce_numeric_def coerce_row_def comp_def)
  moreover have "columns (coerce_numeric parse df) = columns df"
    by (simp add: coerce_numeric_def)
  ultimately show ?thesis
    using True by (simp add: fst_distribute distribute_coerced coerce_numeric_idem)
next
  case False
  then show ?thesis by (simp add: fst_distribute)
qed

theorem second_call_repeats_first_witness:
  "map ProjectOrder (rows (fst (distribute_ads_automatically parse_decimal stable_argsort_desc
       ''2025-01-01 00:00:00'' text_df ''North'' 10 ''E101''))) = [Num 1] \<and>
   snd (distribute_ads_automatically parse_decimal stable_argsort_desc ''2025-01-01 00:00:00''
       text_df ''North'' 10 ''E101'') =
     Inr ([\<lparr>EmployeeID = ''E101'', LogProjectID = ''P1'', LogRegionName = ''North'',
             UnitTypeName = ''Apt'', AdsAllocated = 5, DistributionDate = ''2025-01-01 00:00:00''\<rparr>,
           \<lparr>EmployeeID = ''E101'', LogProjectID = ''P1'', LogRegionName = ''North'',
             UnitTypeName = ''Studio'', AdsAllocated = 5, DistributionDate = ''2025-01-01 00:00:00''\<rparr>],
          [(''P1'', 10)], 10) \<and>
   distribute_ads_automatically parse_decimal stable_argsort_desc ''2025-01-01 00:00:00''
       (fst (distribute_ads_automatically parse_decimal stable_argsort_desc
          ''2025-01-01 00:00:00'' text_df ''North'' 10 ''E101'')) ''North'' 10 ''E101'' =
     distribute_ads_automatically parse_decimal stable_argsort_desc ''2025-01-01 00:00:00''
       text_df ''North'' 10 ''E101''"
proof -
  have a: "map ProjectOrder (rows (fst (distribute_ads_automatically parse_decimal stable_argsort_desc
       ''2025-01-01 00:00:00'' text_df ''North'' 10 ''E101''))) = [Num 1]"
    by code_simp
  have b: "snd (distribute_ads_automatically parse_decimal stable_argsort_desc ''2025-01-01 00:00:00''
       text_df ''North'' 10 ''E101'') =
     Inr ([\<lparr>EmployeeID = ''E101'', LogProjectID = ''P1'', LogRegionName = ''North'',
             UnitTypeName = ''Apt'', AdsAllocated = 5, DistributionDate = ''2025-01-01 00:00:00''\<rparr>,
           \<lparr>EmployeeID = ''E101'', LogProjectID = ''P1'', LogRegionName = ''North'',
             UnitTypeName = ''Studio'', AdsAllocated = 5, DistributionDate = ''2025-01-01 00:00:00''\<rparr>],
          [(''P1'', 10)], 10)"
    by code_simp
  from second_call_repeats_first [of parse_decimal stable_argsort_desc "''2025-01-01 00:00:00''"
      text_df "''North''" 10 "''E101''"] a b
  show ?thesis by blast
qed

text \<open>
  A frame whose numeric cells are text comes back with numbers and NaN in their place: the
  caller's frame is not what it was.
\<close>

theorem frame_mutated_counterexample:
  "map ProjectOrder (rows text_df) = [Str ''1''] \<and>
   map AdsDistributed (rows text_df) = [Str ''n/a''] \<and>
   map ProjectOrder (rows (fst (distribute_ads_automatically parse_decimal stable_argsort_desc
       ''2025-01-01 00:00:00'' text_df ''North'' 10 ''E101''))) = [Num 1] \<and>
   map AdsDistributed (rows (fst (distribute_ads_automatically parse_decimal stable_argsort_desc
       ''2025-01-01 00:00:00'' text_df ''North'' 10 ''E101''))) = [NaN] \<and>
   fst (distribute_ads_automatically parse_decimal stable_argsort_desc
       ''2025-01-01 00:00:00'' text_df ''North'' 10 ''E101'') \<noteq> text_df"
proof -
  let ?df = "fst (distribute_ads_automatically parse_decimal stable_argsort_desc
       ''2025-01-01 00:00:00'' text_df ''North'' 10 ''E101'')"
  have a: "map ProjectOrder (rows text_df) = [Str ''1'']" by code_simp
  have b: "map AdsDistributed (rows text_df) = [Str ''n/a'']" by code_simp
  have c: "map ProjectOrder (rows ?df) = [Num 1]" by code_simp
  have d: "map AdsDistributed (rows ?df) = [NaN]" by code_simp
  have "?df \<noteq> text_df"
  proof
    assume "?df = text_df"
    with a c have "[Num 1] = [Str ''1'']" by simp
    then show False by simp
  qed
  with a b c d show ?thesis by blast
qed

section \<open>The log and the project updates\<close>






















section \<open>Who receives the remainder\<close>

lemma extra_count:
  assumes "sort_values_desc_ok srt" and "sum_list ws \<noteq> 0"
  shows "nat (min (remainder_ads ws q) (int (length ws))) = nat (remainder_ads ws q)"
    and "nat (remainder_ads ws q) \<le> length ws"
  using remainder_ads_bounds [OF assms(2), of q] by simp_all

lemma AllocatedAdsProject_nth:
  assumes "sort_values_desc_ok srt" and "sum_list ws \<noteq> 0" and "j < length ws"
  shows "AllocatedAdsProject srt ws q ! j =
     floor_ads ws q ! j +
       (if j \<in> set (take (nat (remainder_ads ws q)) (sorted_indices srt ws q)) then 1 else 0)"
proof -
  have "distinct (take (nat (remainder_ads ws q)) (sorted_indices srt ws q))"
    using assms(1) by (simp add: sorted_indices_def sort_ok_distinct)
  then show ?thesis
    unfolding AllocatedAdsProject_def extra_count(1) [OF assms(1,2)]
    using assms(3) by (intro nth_add_remainder) simp_all
qed


text \<open>
  Under the stable instance of the sort the earlier of two rows with equal fractional parts
  is served first: the order among ties is a property of the sort, not of the loop.
\<close>

lemma stable_argsort_desc_ties:
  assumes "i < j" and "j < length ks" and "ks ! i = ks ! j"
      and "j \<in> set (take m (stable_argsort_desc ks))"
  shows "i \<in> set (take m (stable_argsort_desc ks))"
proof -
  let ?xs = "stable_argsort_desc ks"
  let ?P = "\<lambda>y. - (ks ! y) = - (ks ! j)"
  let ?A = "filter ?P (take m ?xs)" and ?B = "filter ?P (drop m ?xs)"
  have "filter ?P ?xs = filter ?P [0..<length ks]"
    unfolding stable_argsort_desc_def by (rule sort_key_stable)
  moreover have "filter ?P ?xs = ?A @ ?B"
    by (metis append_take_drop_id filter_append)
  ultimately have AB: "?A @ ?B = filter ?P [0..<length ks]" by simp
  have "sorted_wrt (<) (filter ?P [0..<length ks])"
    by (intro sorted_wrt_filter) simp
  with AB have "sorted_wrt (<) (?A @ ?B)" by simp
  then have lt: "\<forall>a\<in>set ?A. \<forall>b\<in>set ?B. a < b"
    by (simp add: sorted_wrt_append)
  have jA: "j \<in> set ?A" using assms(4) by simp
  have "i \<in> set (filter ?P [0..<length ks])"
    using assms(1,2,3) by simp
  with AB have "i \<in> set ?A \<or> i \<in> set ?B"
    by (metis Un_iff set_append)
  with lt jA assms(1) have "i \<in> set ?A" by force
  then show ?thesis by simp
qed

lemma stable_sort_serves_ties_in_input_order:
  assumes "sum_list ws \<noteq> 0" and "i < j" and "j < length ws"
      and "RemainderPriority ws q ! i = RemainderPriority ws q ! j"
      and "AllocatedAdsProject stable_argsort_desc ws q ! j = floor_ads ws q ! j + 1"
  shows "AllocatedAdsProject stable_argsort_desc ws q ! i = floor_ads ws q ! i + 1"
proof -
  let ?E = "set (take (nat (remainder_ads ws q)) (sorted_indices stable_argsort_desc ws q))"
  note nth = AllocatedAdsProject_nth [OF stable_argsort_desc_ok assms(1)]
  from assms(2,3) have i: "i < length ws" by simp
  from nth [OF assms(3), of q] assms(5) have "j \<in> ?E" by (simp split: if_splits)
  then have "i \<in> ?E"
    unfolding sorted_indices_def
    using assms(2,3,4) by (intro stable_argsort_desc_ties [of i j]) simp_all
  with nth [OF i, of q] show ?thesis by simp
qed




section \<open>One more ad to distribute\<close>














end
